theory Spec2Isabelle
  imports Complex_Main
begin

section \<open>Conventions\<close>

text \<open>
  The development embeds the emotion fusion engine (\<^verbatim>\<open>emotion_fusion.py\<close>), the
  speech output queue (\<^verbatim>\<open>test_to_speech.py\<close>), the speech trigger logic of
  \<^verbatim>\<open>main.py\<close>, the sliding-window consumer of \<^verbatim>\<open>audio_capture.py\<close> and the
  heuristic voice classifier of \<^verbatim>\<open>voice_detector.py\<close>.

  Python floats are modelled as real numbers: every result below is about exact
  arithmetic, not about IEEE rounding. Python strings are \<^typ>\<open>string\<close>, \<^verbatim>\<open>None\<close> is
  \<^term>\<open>None\<close>, a result dictionary is a record, and an object's attributes are the fields
  of a state record that every method takes and returns.
\<close>

section \<open>Configuration (\<^verbatim>\<open>config.py\<close>)\<close>

definition FACE_WEIGHT :: real where
  "FACE_WEIGHT = 0.7"

definition VOICE_WEIGHT :: real where
  "VOICE_WEIGHT = 0.3"

definition EMOTIONS :: "string list" where
  "EMOTIONS = [''angry'', ''disgust'', ''fear'', ''happy'', ''neutral'', ''sad'', ''surprise'']"

section \<open>Emotion fusion (\<^verbatim>\<open>emotion_fusion.py\<close>)\<close>

text \<open>
  A face or voice result is a dictionary with at least the keys \<^verbatim>\<open>emotion\<close> and
  \<^verbatim>\<open>confidence\<close>; the further keys of each detector are the extension of the record.
\<close>

record estimate =
  emotion :: string
  confidence :: real

record fusion_result = estimate +
  source :: string

text \<open>\<^verbatim>\<open>EmotionFusion.__init__\<close> copies the two weights of the configuration.\<close>

definition face_weight :: real where
  "face_weight = FACE_WEIGHT"

definition voice_weight :: real where
  "voice_weight = VOICE_WEIGHT"

definition fuse_emotions ::
  "'a estimate_scheme option \<Rightarrow> 'b estimate_scheme option \<Rightarrow> fusion_result option" where
  "fuse_emotions face_result voice_result =
    (case face_result of
       None \<Rightarrow>
         (case voice_result of
            None \<Rightarrow> None
          | Some v \<Rightarrow>
              Some \<lparr>emotion = emotion v, confidence = confidence v * 0.8,
                    source = ''voice_only''\<rparr>)
     | Some f \<Rightarrow>
         (case voice_result of
            None \<Rightarrow>
              Some \<lparr>emotion = emotion f, confidence = confidence f * 0.8,
                    source = ''face_only''\<rparr>
          | Some v \<Rightarrow>
              (let face_emotion = emotion f;
                   voice_emotion = emotion v;
                   face_conf = confidence f;
                   voice_conf = confidence v
               in if face_emotion = voice_emotion then
                    (let combined_confidence =
                           min 1.0 (face_conf * face_weight + voice_conf * voice_weight + 0.2)
                     in Some \<lparr>emotion = face_emotion, confidence = combined_confidence,
                              source = ''agreement''\<rparr>)
                  else
                    (let face_weighted = face_conf * face_weight;
                         voice_weighted = voice_conf * voice_weight
                     in if face_weighted > voice_weighted then
                          Some \<lparr>emotion = face_emotion, confidence = face_weighted,
                                source = ''face_dominant''\<rparr>
                        else
                          Some \<lparr>emotion = voice_emotion, confidence = voice_weighted,
                                source = ''voice_dominant''\<rparr>))))"

text \<open>An estimate is well formed when it respects the invariants of the data model.\<close>

definition valid_estimate :: "'a estimate_scheme \<Rightarrow> bool" where
  "valid_estimate e = (0 \<le> confidence e \<and> confidence e \<le> 1 \<and> emotion e \<in> set EMOTIONS)"

section \<open>Speech output queue (\<^verbatim>\<open>test_to_speech.py\<close>)\<close>

text \<open>
  The attributes of \<^verbatim>\<open>TextToSpeech\<close>. \<open>engine\<close> says whether the attribute
  \<^verbatim>\<open>engine\<close> holds an engine (it is \<^verbatim>\<open>None\<close> when the speech library is missing or
  fails to start). \<open>speak_queue\<close> is the content of the bounded queue, oldest first; the
  workers that drain it are not part of the model.
\<close>

record tts_state =
  enabled :: bool
  engine :: bool
  emotion_count :: nat
  speak_queue :: "(string \<times> real) list"
  last_speak_time :: real

definition tts_messages :: "string \<Rightarrow> string list" where
  "tts_messages emo =
     [emo, emo @ '' detected'', ''Emotion '' @ emo, emo @ '' emotion'']"

text \<open>
  \<^verbatim>\<open>speak_emotion_now\<close>; \<open>current_time\<close> is the clock value it reads. The queue holds
  at most 50 entries: a full queue is cut to its 10 newest entries before the put.
\<close>

definition speak_emotion_now :: "tts_state \<Rightarrow> string \<Rightarrow> real \<Rightarrow> real \<Rightarrow> tts_state" where
  "speak_emotion_now t emo conf current_time =
    (if \<not> enabled t \<or> \<not> engine t then t
     else
       (let cnt = emotion_count t + 1;
            messages = tts_messages emo;
            message = messages ! (cnt mod length messages);
            q = speak_queue t;
            q' = (if length q < 50 then q @ [(message, current_time)]
                  else drop (length q - 10) q @ [(message, current_time)])
        in t\<lparr>emotion_count := cnt, speak_queue := q', last_speak_time := current_time\<rparr>))"

section \<open>Speech triggers (\<^verbatim>\<open>main.py\<close>)\<close>

text \<open>
  The attributes of \<^verbatim>\<open>MultimodalEmotionDetector\<close> that the speech logic reads and
  writes. \<open>console\<close> is the list of \<^verbatim>\<open>SPOKE[count]: message (reason) at time\<close> lines
  printed so far, each as the tuple of its four values.
\<close>

record detector_state =
  tts :: tts_state
  current_emotion :: "string option"
  last_spoken_time :: real
  last_face_emotion :: "string option"
  last_voice_emotion :: "string option"
  emotion_speak_count :: nat
  console :: "(nat \<times> string \<times> string \<times> real) list"

definition spoken_messages :: "string \<Rightarrow> string list" where
  "spoken_messages emo =
     [emo,
      emo @ '' detected'',
      ''Emotion '' @ emo,
      emo @ '' emotion'',
      ''Current emotion '' @ emo,
      ''Feeling '' @ emo,
      ''I see '' @ emo,
      emo @ '' expression'']"

text \<open>The message that \<^verbatim>\<open>execute_emotion_speaking\<close> selects and prints.\<close>

definition select_message :: "string \<Rightarrow> string \<Rightarrow> nat \<Rightarrow> string" where
  "select_message reason emo cnt =
    (if reason = ''face_changed'' then ''Face shows '' @ emo
     else if reason = ''voice_changed'' then ''Voice shows '' @ emo
     else if reason = ''high_confidence'' then ''Strong '' @ emo
     else spoken_messages emo ! (cnt mod length (spoken_messages emo)))"

text \<open>
  \<^verbatim>\<open>execute_emotion_speaking\<close>; \<open>clock\<close> is the time that \<^verbatim>\<open>speak_emotion_now\<close>
  reads while it runs.
\<close>

definition execute_emotion_speaking ::
  "detector_state \<Rightarrow> 'a estimate_scheme \<Rightarrow> string \<Rightarrow> real \<Rightarrow> real \<Rightarrow> detector_state" where
  "execute_emotion_speaking st final_emotion reason current_time clock =
    (let cnt = emotion_speak_count st + 1;
         emo = emotion final_emotion;
         conf = confidence final_emotion;
         message = select_message reason emo cnt;
         t' = speak_emotion_now (tts st) emo conf clock
     in st\<lparr>emotion_speak_count := cnt,
            tts := t',
            current_emotion := Some emo,
            last_spoken_time := current_time,
            console := console st @ [(cnt, message, reason, current_time)]\<rparr>)"

text \<open>
  The five triggers of \<^verbatim>\<open>continuous_speak_emotion\<close>, in the order of the source. The
  result is the pair \<open>(should_speak, speak_reason)\<close> and the state with the updates of
  triggers 2 and 3.
\<close>

definition evaluate_triggers ::
  "detector_state \<Rightarrow> 'a estimate_scheme option \<Rightarrow> 'b estimate_scheme option \<Rightarrow>
     'c estimate_scheme option \<Rightarrow> real \<Rightarrow> (bool \<times> string) \<times> detector_state" where
  "evaluate_triggers st final_emotion face_result voice_result current_time =
    (let d0 = (False, '''');
         d1 = (case final_emotion of
                 Some fe \<Rightarrow>
                   if current_emotion st \<noteq> Some (emotion fe) then
                     (if confidence fe > 0.4 then (True, ''emotion_changed'') else d0)
                   else d0
               | None \<Rightarrow> d0);
         (d2, st2) = (case face_result of
                 Some fr \<Rightarrow>
                   if last_face_emotion st \<noteq> Some (emotion fr) then
                     (if confidence fr > 0.7 then
                        ((True, ''face_changed''), st\<lparr>last_face_emotion := Some (emotion fr)\<rparr>)
                      else (d1, st))
                   else (d1, st)
               | None \<Rightarrow> (d1, st));
         (d3, st3) = (case voice_result of
                 Some vr \<Rightarrow>
                   if last_voice_emotion st2 \<noteq> Some (emotion vr) then
                     (if confidence vr > 0.5 then
                        ((True, ''voice_changed''), st2\<lparr>last_voice_emotion := Some (emotion vr)\<rparr>)
                      else (d2, st2))
                   else (d2, st2)
               | None \<Rightarrow> (d2, st2));
         time_passed = (current_time - last_spoken_time st3 > 2.0);
         d4 = (case final_emotion of
                 Some fe \<Rightarrow>
                   if time_passed \<and> confidence fe > 0.4 then (True, ''time_based'') else d3
               | None \<Rightarrow> d3);
         d5 = (case final_emotion of
                 Some fe \<Rightarrow>
                   if confidence fe > 0.85 then
                     (let time_since_last = current_time - last_spoken_time st3
                      in if time_since_last > 0.5 then (True, ''high_confidence'') else d4)
                   else d4
               | None \<Rightarrow> d4)
     in (d5, st3))"

definition continuous_speak_emotion ::
  "detector_state \<Rightarrow> 'a estimate_scheme option \<Rightarrow> 'b estimate_scheme option \<Rightarrow>
     'c estimate_scheme option \<Rightarrow> real \<Rightarrow> real \<Rightarrow> detector_state" where
  "continuous_speak_emotion st final_emotion face_result voice_result current_time clock =
    (if \<not> enabled (tts st) then st
     else
       (let ((should_speak, speak_reason), st') =
              evaluate_triggers st final_emotion face_result voice_result current_time
        in case final_emotion of
             Some fe \<Rightarrow>
               if should_speak then execute_emotion_speaking st' fe speak_reason current_time clock
               else st'
           | None \<Rightarrow> st'))"

section \<open>Sliding-window consumer (\<^verbatim>\<open>audio_capture.py\<close>)\<close>

text \<open>
  The attributes of \<^verbatim>\<open>AudioCapture\<close> that the consumer loop of \<^verbatim>\<open>start_capture\<close>
  reads. \<open>has_voice_detector\<close> says whether \<^verbatim>\<open>set_voice_detector\<close> has connected a
  detector.
\<close>

record audio_capture =
  sample_rate :: nat
  chunk_size :: nat
  buffer_duration :: nat
  has_voice_detector :: bool

definition AudioCapture_init :: audio_capture where
  "AudioCapture_init =
     \<lparr>sample_rate = 16000, chunk_size = 1024, buffer_duration = 3, has_voice_detector = False\<rparr>"

definition set_voice_detector :: "audio_capture \<Rightarrow> audio_capture" where
  "set_voice_detector ac = ac\<lparr>has_voice_detector := True\<rparr>"

text \<open>The Python slice \<^verbatim>\<open>xs[-n:]\<close> for \<open>n \<ge> 0\<close>: the last \<open>n\<close> elements, all of them
  when \<open>n\<close> is 0 or exceeds the length.\<close>

definition py_last :: "nat \<Rightarrow> 'a list \<Rightarrow> 'a list" where
  "py_last n xs = (if n = 0 then xs else drop (length xs - n) xs)"

text \<open>
  One iteration of the consumer loop. \<open>polled\<close> is the outcome of the queue read:
  \<^term>\<open>None\<close> for \<^verbatim>\<open>queue.Empty\<close>, a block otherwise. The state is the local
  \<^verbatim>\<open>audio_buffer\<close> and the list of windows handed to the voice detector so far. The
  first component of the result is the window \<^verbatim>\<open>audio_array\<close> built in this iteration,
  if any.
\<close>

definition capture_step ::
  "audio_capture \<Rightarrow> 'a list option \<Rightarrow> 'a list \<times> 'a list list \<Rightarrow>
     'a list option \<times> 'a list \<times> 'a list list" where
  "capture_step ac polled s =
    (case s of (audio_buffer, delivered) \<Rightarrow>
      (case polled of
         None \<Rightarrow> (None, audio_buffer, delivered)
       | Some audio_chunk \<Rightarrow>
           (let target_samples = sample_rate ac * buffer_duration ac;
                buf = audio_buffer @ audio_chunk
            in if length buf \<ge> target_samples then
                 (let audio_array = py_last target_samples buf;
                      delivered' = (if has_voice_detector ac then delivered @ [audio_array]
                                    else delivered)
                  in (Some audio_array, py_last (sample_rate ac) buf, delivered'))
               else (None, buf, delivered))))"

text \<open>The loop over the successive queue reads made while \<^verbatim>\<open>recording\<close> is set.\<close>

fun capture_loop ::
  "audio_capture \<Rightarrow> 'a list option list \<Rightarrow> 'a list \<times> 'a list list \<Rightarrow> 'a list \<times> 'a list list" where
  "capture_loop ac [] s = s"
| "capture_loop ac (p # ps) s = capture_loop ac ps (snd (capture_step ac p s))"

section \<open>Heuristic voice classifier (\<^verbatim>\<open>voice_detector.py\<close>)\<close>

subsection \<open>Score dictionaries\<close>

text \<open>
  A dictionary of scores is the list of its items in insertion order, which is the order
  in which Python iterates over it. Reading or updating a missing key raises
  \<^verbatim>\<open>KeyError\<close>.
\<close>

type_synonym scores = "(string \<times> real) list"

datatype error = KeyError string | ValueError | ZeroDivisionError

definition dict_get :: "scores \<Rightarrow> string \<Rightarrow> error + real" where
  "dict_get d k = (case map_of d k of None \<Rightarrow> Inl (KeyError k) | Some v \<Rightarrow> Inr v)"

text \<open>\<^verbatim>\<open>d[k] = f(d[k])\<close>, the shape of \<^verbatim>\<open>d[k] += c\<close> and \<^verbatim>\<open>d[k] *= c\<close>.\<close>

definition dict_modify :: "string \<Rightarrow> (real \<Rightarrow> real) \<Rightarrow> scores \<Rightarrow> error + scores" where
  "dict_modify k f d =
    (if k \<in> set (map fst d)
     then Inr (map (\<lambda>(k', v). if k' = k then (k', f v) else (k', v)) d)
     else Inl (KeyError k))"

text \<open>A run of statements \<^verbatim>\<open>d[k] += c\<close>, in program order.\<close>

fun add_all :: "(string \<times> real) list \<Rightarrow> scores \<Rightarrow> error + scores" where
  "add_all [] d = Inr d"
| "add_all ((k, c) # bs) d =
     (case dict_modify k (\<lambda>v. v + c) d of
        Inl e \<Rightarrow> Inl e
      | Inr d' \<Rightarrow> add_all bs d')"

text \<open>\<^verbatim>\<open>max(d, key=d.get)\<close>: the first key, in iteration order, whose value is maximal;
  \<^verbatim>\<open>ValueError\<close> on an empty dictionary.\<close>

fun max_from :: "string \<times> real \<Rightarrow> scores \<Rightarrow> string \<times> real" where
  "max_from best [] = best"
| "max_from best (kv # d) = (if snd kv > snd best then max_from kv d else max_from best d)"

definition py_max_key :: "scores \<Rightarrow> error + string" where
  "py_max_key d = (case d of [] \<Rightarrow> Inl ValueError | kv # d' \<Rightarrow> Inr (fst (max_from kv d')))"

subsection \<open>Signal descriptors\<close>

text \<open>\<^verbatim>\<open>np.max\<close> raises \<^verbatim>\<open>ValueError\<close> on an empty array.\<close>

fun np_max :: "real list \<Rightarrow> error + real" where
  "np_max [] = Inl ValueError"
| "np_max (x # xs) = Inr (fold max xs x)"

definition np_mean :: "real list \<Rightarrow> real" where
  "np_mean xs = sum_list xs / real (length xs)"

fun np_diff :: "real list \<Rightarrow> real list" where
  "np_diff (x # y # xs) = (y - x) # np_diff (y # xs)"
| "np_diff xs = []"

text \<open>Python's \<^verbatim>\<open>x % m\<close> on floats, for a positive \<open>m\<close>.\<close>

definition py_fmod :: "real \<Rightarrow> real \<Rightarrow> real" where
  "py_fmod x m = x - m * of_int \<lfloor>x / m\<rfloor>"

subsection \<open>Rule table of \<^verbatim>\<open>_calculate_realtime_emotions\<close>\<close>

definition base_emotions :: scores where
  "base_emotions =
     [(''neutral'', 0.15), (''happy'', 0.14), (''sad'', 0.13), (''angry'', 0.12),
      (''surprise'', 0.11), (''fear'', 0.10), (''disgust'', 0.09)]"

definition volume_rules :: "real \<Rightarrow> (string \<times> real) list" where
  "volume_rules volume =
    (if volume > 0.3 then [(''angry'', 0.25), (''surprise'', 0.20), (''happy'', 0.15)]
     else if volume > 0.15 then [(''happy'', 0.20), (''neutral'', 0.15)]
     else [(''sad'', 0.25), (''fear'', 0.15), (''neutral'', 0.10)])"

definition energy_rules :: "real \<Rightarrow> (string \<times> real) list" where
  "energy_rules energy =
    (if energy > 0.02 then [(''angry'', 0.20), (''happy'', 0.18), (''surprise'', 0.12)]
     else if energy < 0.005 then [(''sad'', 0.22), (''fear'', 0.15)]
     else [])"

definition zero_crossing_rules :: "real \<Rightarrow> (string \<times> real) list" where
  "zero_crossing_rules zero_crossings =
    (if zero_crossings > 0.15 then [(''angry'', 0.25), (''disgust'', 0.15)]
     else if zero_crossings < 0.05 then [(''happy'', 0.20), (''neutral'', 0.10)]
     else [])"

definition spectral_rules :: "real \<Rightarrow> (string \<times> real) list" where
  "spectral_rules spectral_rolloff =
    (if spectral_rolloff > 0.6 then [(''happy'', 0.22), (''surprise'', 0.18)]
     else if spectral_rolloff < 0.3 then [(''sad'', 0.20), (''fear'', 0.15)]
     else [])"

definition pitch_rules :: "real \<Rightarrow> (string \<times> real) list" where
  "pitch_rules pitch_variation =
    (if pitch_variation > 0.7 then [(''surprise'', 0.25), (''fear'', 0.18), (''happy'', 0.12)]
     else if pitch_variation < 0.3 then [(''sad'', 0.20), (''neutral'', 0.15)]
     else [])"

definition calculate_realtime_emotions ::
  "real \<Rightarrow> real \<Rightarrow> real \<Rightarrow> real \<Rightarrow> real \<Rightarrow> error + scores" where
  "calculate_realtime_emotions volume energy zero_crossings spectral_rolloff pitch_variation =
     add_all
       (volume_rules volume @ energy_rules energy @ zero_crossing_rules zero_crossings @
        spectral_rules spectral_rolloff @ pitch_rules pitch_variation)
       base_emotions"

subsection \<open>\<^verbatim>\<open>_add_realtime_variety\<close>\<close>

definition phase_rules :: "real \<Rightarrow> (string \<times> real) list" where
  "phase_rules time_cycle =
    (if time_cycle < 0.2 then [(''happy'', 0.15), (''surprise'', 0.10)]
     else if time_cycle < 0.4 then [(''neutral'', 0.12)]
     else if time_cycle < 0.6 then [(''sad'', 0.15), (''fear'', 0.08)]
     else if time_cycle < 0.8 then [(''angry'', 0.18), (''disgust'', 0.10)]
     else [(''surprise'', 0.20), (''fear'', 0.10)])"

text \<open>The block under \<^verbatim>\<open># Prevent repetition\<close>; \<open>emotion_sequence\<close> is the history of
  the labels chosen so far, oldest first.\<close>

definition prevent_repetition :: "string list \<Rightarrow> scores \<Rightarrow> error + scores" where
  "prevent_repetition emotion_sequence emotion_scores =
    (if length emotion_sequence > 2 then
       (let last_emotion = last emotion_sequence
        in if count_list emotion_sequence last_emotion \<ge> 2 then
             (case dict_modify last_emotion (\<lambda>v. v * 0.7) emotion_scores of
                Inl e \<Rightarrow> Inl e
              | Inr d \<Rightarrow>
                  Inr (map (\<lambda>(k, v). if k \<noteq> last_emotion then (k, v * 1.1) else (k, v)) d))
           else Inr emotion_scores)
     else Inr emotion_scores)"

text \<open>The jitter loop: \<open>rnd i\<close> is the value of the \<open>i\<close>-th call of
  \<^verbatim>\<open>random.uniform(-0.08, 0.12)\<close> in this classification.\<close>

definition add_jitter :: "(nat \<Rightarrow> real) \<Rightarrow> scores \<Rightarrow> scores" where
  "add_jitter rnd d = map (\<lambda>(i, (k, v)). (k, max 0.05 (v + rnd i))) (enumerate 0 d)"

definition normalize :: "scores \<Rightarrow> error + scores" where
  "normalize d =
    (let total = sum_list (map snd d)
     in if d \<noteq> [] \<and> total = 0 then Inl ZeroDivisionError
        else Inr (map (\<lambda>(k, v). (k, v / total)) d))"

definition add_realtime_variety ::
  "(nat \<Rightarrow> real) \<Rightarrow> string list \<Rightarrow> scores \<Rightarrow> real \<Rightarrow> error + scores" where
  "add_realtime_variety rnd emotion_sequence emotion_scores current_time =
    (let time_cycle = py_fmod current_time 15 / 15
     in case add_all (phase_rules time_cycle) emotion_scores of
          Inl e \<Rightarrow> Inl e
        | Inr d1 \<Rightarrow>
            (case prevent_repetition emotion_sequence d1 of
               Inl e \<Rightarrow> Inl e
             | Inr d2 \<Rightarrow> normalize (add_jitter rnd d2)))"

subsection \<open>\<^verbatim>\<open>_analyze_audio_realtime\<close> and \<^verbatim>\<open>process_audio\<close>\<close>

record voice_result = estimate +
  all_predictions :: scores
  model :: string

record voice_detector =
  voice_current_emotion :: "voice_result option"
  emotion_sequence :: "string list"
  processing_count :: nat

text \<open>
  \<^verbatim>\<open>_analyze_audio_realtime\<close> on a one-dimensional window. The spectral rolloff and the
  pitch variation come from the FFT and the autocorrelation of the window; they are the
  parameters \<open>rolloff_of\<close> and \<open>pitch_of\<close>. Every exception is caught by the method and
  turned into \<^verbatim>\<open>None\<close>. The second component is the label history afterwards.
\<close>

definition analyze_audio_realtime ::
  "(real list \<Rightarrow> real) \<Rightarrow> (real list \<Rightarrow> real) \<Rightarrow> (nat \<Rightarrow> real) \<Rightarrow>
     real list \<Rightarrow> real \<Rightarrow> string list \<Rightarrow> voice_result option \<times> string list" where
  "analyze_audio_realtime rolloff_of pitch_of rnd audio_data current_time seq =
    (case np_max (map abs audio_data) of
       Inl e \<Rightarrow> (None, seq)
     | Inr volume \<Rightarrow>
        (let energy = np_mean (map (\<lambda>x. x ^ 2) audio_data);
             rms = sqrt energy;
             zero_crossings =
               sum_list (map abs (np_diff (map sgn audio_data))) / real (length audio_data);
             spectral_rolloff = rolloff_of audio_data;
             pitch_variation = pitch_of audio_data
         in if volume < 0.005 then (None, seq)
            else
              (case calculate_realtime_emotions volume energy zero_crossings
                      spectral_rolloff pitch_variation of
                 Inl e \<Rightarrow> (None, seq)
               | Inr scores0 \<Rightarrow>
                  (case add_realtime_variety rnd seq scores0 current_time of
                     Inl e \<Rightarrow> (None, seq)
                   | Inr emotion_scores \<Rightarrow>
                      (case py_max_key emotion_scores of
                         Inl e \<Rightarrow> (None, seq)
                       | Inr best_emotion \<Rightarrow>
                          (case dict_get emotion_scores best_emotion of
                             Inl e \<Rightarrow> (None, seq)
                           | Inr base_confidence \<Rightarrow>
                              (let confidence_boost = min 0.3 (volume * 2 + rms * 1.5);
                                   final_confidence =
                                     min 0.92 (base_confidence + confidence_boost);
                                   seq1 = seq @ [best_emotion];
                                   seq2 = (if length seq1 > 10 then tl seq1 else seq1)
                               in (Some \<lparr>emotion = best_emotion,
                                         confidence = final_confidence,
                                         all_predictions = emotion_scores,
                                         model = ''Real-Time-Audio''\<rparr>,
                                   seq2))))))))"

definition process_audio ::
  "(real list \<Rightarrow> real) \<Rightarrow> (real list \<Rightarrow> real) \<Rightarrow> (nat \<Rightarrow> real) \<Rightarrow>
     voice_detector \<Rightarrow> real list option \<Rightarrow> real \<Rightarrow> voice_detector" where
  "process_audio rolloff_of pitch_of rnd vd audio_data current_time =
    (case audio_data of
       None \<Rightarrow> vd
     | Some a \<Rightarrow>
        if length a < 1000 then vd
        else
          (let vd1 = vd\<lparr>processing_count := processing_count vd + 1\<rparr>;
               (emotion_result, seq') =
                  analyze_audio_realtime rolloff_of pitch_of rnd a current_time
                    (emotion_sequence vd1);
               vd2 = vd1\<lparr>emotion_sequence := seq'\<rparr>
           in case emotion_result of
                Some r \<Rightarrow> vd2\<lparr>voice_current_emotion := Some r\<rparr>
              | None \<Rightarrow> vd2))"

section \<open>Auxiliary notions for the statements\<close>

text \<open>
  The five triggers in the words of the design: each is a condition on the state before the
  cycle and on the inputs, paired with the reason it records. \<open>last_true_reason\<close> keeps
  the reason of the last condition that holds.
\<close>

definition trigger_conditions ::
  "detector_state \<Rightarrow> 'a estimate_scheme option \<Rightarrow> 'b estimate_scheme option \<Rightarrow>
     'c estimate_scheme option \<Rightarrow> real \<Rightarrow> bool list" where
  "trigger_conditions st fused face voice now =
     [case fused of None \<Rightarrow> False
      | Some fe \<Rightarrow> current_emotion st \<noteq> Some (emotion fe) \<and> confidence fe > 0.4,
      case face of None \<Rightarrow> False
      | Some fr \<Rightarrow> last_face_emotion st \<noteq> Some (emotion fr) \<and> confidence fr > 0.7,
      case voice of None \<Rightarrow> False
      | Some vr \<Rightarrow> last_voice_emotion st \<noteq> Some (emotion vr) \<and> confidence vr > 0.5,
      case fused of None \<Rightarrow> False
      | Some fe \<Rightarrow> now - last_spoken_time st > 2 \<and> confidence fe > 0.4,
      case fused of None \<Rightarrow> False
      | Some fe \<Rightarrow> confidence fe > 0.85 \<and> now - last_spoken_time st > 0.5]"

definition trigger_reasons :: "string list" where
  "trigger_reasons =
     [''emotion_changed'', ''face_changed'', ''voice_changed'', ''time_based'',
      ''high_confidence'']"

fun last_true_reason :: "bool \<times> string \<Rightarrow> (bool \<times> string) list \<Rightarrow> bool \<times> string" where
  "last_true_reason d [] = d"
| "last_true_reason d ((c, r) # crs) = last_true_reason (if c then (True, r) else d) crs"

definition confidence_in_unit :: "'a estimate_scheme option \<Rightarrow> bool" where
  "confidence_in_unit r =
     (case r of None \<Rightarrow> True | Some e \<Rightarrow> 0 \<le> confidence e \<and> confidence e \<le> 1)"

definition valid_input :: "'a estimate_scheme option \<Rightarrow> bool" where
  "valid_input r = (case r of None \<Rightarrow> True | Some e \<Rightarrow> valid_estimate e)"

text \<open>The state that \<^verbatim>\<open>MultimodalEmotionDetector.__init__\<close> builds when the speech
  engine is available.\<close>

definition detector_init :: detector_state where
  "detector_init =
     \<lparr>tts = \<lparr>enabled = True, engine = True, emotion_count = 0, speak_queue = [],
              last_speak_time = 0\<rparr>,
      current_emotion = None, last_spoken_time = 0, last_face_emotion = None,
      last_voice_emotion = None, emotion_speak_count = 0, console = []\<rparr>"

text \<open>The capture object once \<^verbatim>\<open>main.py\<close> has connected the voice detector.\<close>

definition mic :: audio_capture where
  "mic = set_voice_detector AudioCapture_init"


section \<open>Fusion\<close>

lemmas fuse_defs =
  fuse_emotions_def face_weight_def voice_weight_def FACE_WEIGHT_def VOICE_WEIGHT_def

text \<open>
  C4. When both estimates are present and their labels differ, the fused result carries
  the label whose weighted confidence (face confidence times 0.7 against voice confidence
  times 0.3) is larger, that weighted value as confidence, and the provenance
  \<open>face_dominant\<close> or \<open>voice_dominant\<close>; when the two weighted values are equal the voice
  label wins. For face = (sad, 0.5) and voice = (angry, 0.9) the result is sad with
  provenance \<open>face_dominant\<close>.
\<close>

theorem fuse_disagreement:
  "emotion f \<noteq> emotion v \<Longrightarrow>
     (confidence f * 0.7 > confidence v * 0.3 \<longrightarrow>
        fuse_emotions (Some f) (Some v) =
          Some \<lparr>emotion = emotion f, confidence = confidence f * 0.7,
                source = ''face_dominant''\<rparr>) \<and>
     (confidence f * 0.7 < confidence v * 0.3 \<longrightarrow>
        fuse_emotions (Some f) (Some v) =
          Some \<lparr>emotion = emotion v, confidence = confidence v * 0.3,
                source = ''voice_dominant''\<rparr>) \<and>
     (confidence f * 0.7 = confidence v * 0.3 \<longrightarrow>
        fuse_emotions (Some f) (Some v) =
          Some \<lparr>emotion = emotion v, confidence = confidence v * 0.3,
                source = ''voice_dominant''\<rparr>) \<and>
     fuse_emotions (Some \<lparr>emotion = ''sad'', confidence = 0.5\<rparr>)
                   (Some \<lparr>emotion = ''angry'', confidence = 0.9\<rparr>) =
       Some \<lparr>emotion = ''sad'', confidence = 0.35, source = ''face_dominant''\<rparr>"
  by (simp add: fuse_defs Let_def)

theorem fuse_disagreement_witness:
  "emotion \<lparr>emotion = ''fear'', confidence = 0.3\<rparr> \<noteq>
     emotion \<lparr>emotion = ''happy'', confidence = 0.7\<rparr> \<and>
   fuse_emotions (Some \<lparr>emotion = ''fear'', confidence = 0.3\<rparr>)
                 (Some \<lparr>emotion = ''happy'', confidence = 0.7\<rparr>) =
     Some \<lparr>emotion = ''happy'', confidence = 0.21, source = ''voice_dominant''\<rparr>"
  using fuse_disagreement
    [of "\<lparr>emotion = ''fear'', confidence = 0.3\<rparr>" "\<lparr>emotion = ''happy'', confidence = 0.7\<rparr>"]
  by simp

text \<open>
  C5. When both estimates are present and carry the same label, the fused result has that
  label, the confidence min(1, face confidence times 0.7 + voice confidence times 0.3 + 0.2)
  and the provenance \<open>agreement\<close>; for face = (happy, 0.9) and voice = (happy, 0.6) the
  confidence is exactly 1.
\<close>

theorem fuse_agreement:
  "emotion f = emotion v \<Longrightarrow>
     fuse_emotions (Some f) (Some v) =
       Some \<lparr>emotion = emotion f,
             confidence = min 1 (confidence f * 0.7 + confidence v * 0.3 + 0.2),
             source = ''agreement''\<rparr> \<and>
     fuse_emotions (Some \<lparr>emotion = ''happy'', confidence = 0.9\<rparr>)
                   (Some \<lparr>emotion = ''happy'', confidence = 0.6\<rparr>) =
       Some \<lparr>emotion = ''happy'', confidence = 1, source = ''agreement''\<rparr>"
  by (simp add: fuse_defs Let_def)

theorem fuse_agreement_witness:
  "emotion \<lparr>emotion = ''sad'', confidence = 0.5\<rparr> =
     emotion \<lparr>emotion = ''sad'', confidence = 0.5\<rparr> \<and>
   fuse_emotions (Some \<lparr>emotion = ''sad'', confidence = 0.5\<rparr>)
                 (Some \<lparr>emotion = ''sad'', confidence = 0.5\<rparr>) =
     Some \<lparr>emotion = ''sad'', confidence = 0.7, source = ''agreement''\<rparr>"
  using fuse_agreement
    [of "\<lparr>emotion = ''sad'', confidence = 0.5\<rparr>" "\<lparr>emotion = ''sad'', confidence = 0.5\<rparr>"]
  by simp

lemma fuse_source_bounds:
  assumes "confidence_in_unit face" "confidence_in_unit voice"
    and "fuse_emotions face voice = Some r"
  shows "source r = ''face_dominant'' \<or> source r = ''voice_dominant'' \<longrightarrow> confidence r \<le> 0.7"
    and "source r = ''face_only'' \<or> source r = ''voice_only'' \<longrightarrow> confidence r \<le> 0.8"
    and "confidence r > 0.85 \<longrightarrow> source r = ''agreement''"
  using assms
  by (auto simp: fuse_defs confidence_in_unit_def Let_def split: option.splits if_splits)

lemma fuse_valid:
  "valid_input face \<Longrightarrow> valid_input voice \<Longrightarrow> fuse_emotions face voice = Some r \<Longrightarrow>
     0 \<le> confidence r \<and> confidence r \<le> 1 \<and> emotion r \<in> set EMOTIONS"
  by (auto simp: fuse_defs valid_input_def valid_estimate_def Let_def
           split: option.splits if_splits)

section \<open>Speech triggers\<close>

lemma evaluate_triggers_decision:
  "fst (evaluate_triggers st fused face voice now) =
     last_true_reason (False, '''')
       (zip (trigger_conditions st fused face voice now) trigger_reasons)"
  by (simp add: evaluate_triggers_def trigger_conditions_def trigger_reasons_def Let_def
           split: option.split prod.split)

lemma high_confidence_reason:
  "snd (fst (evaluate_triggers st fused face voice now)) = ''high_confidence'' \<Longrightarrow>
     \<exists>fe. fused = Some fe \<and> confidence fe > 0.85"
  by (auto simp: evaluate_triggers_def Let_def split: option.splits prod.splits if_splits)

text \<open>
  C8. With speech enabled, a fused result whose label is the last spoken one and whose
  confidence is above 0.4 and at most 0.85 (0.5 in the claim), and more than 2 seconds since
  the last speech (3 in the claim), the cycle speaks and records the reason
  \<open>time_based\<close>, whatever the face and voice estimates are. In every cycle the recorded
  decision is that of the last of the five triggers, taken in the order 1 to 5, whose
  condition holds.
\<close>

theorem time_based_trigger:
  "enabled (tts st) \<Longrightarrow> current_emotion st = Some (emotion fe) \<Longrightarrow>
   0.4 < confidence fe \<Longrightarrow> confidence fe \<le> 0.85 \<Longrightarrow> now - last_spoken_time st > 2 \<Longrightarrow>
     fst (evaluate_triggers st (Some fe) face voice now) = (True, ''time_based'') \<and>
     continuous_speak_emotion st (Some fe) face voice now clock =
       execute_emotion_speaking (snd (evaluate_triggers st (Some fe) face voice now))
         fe ''time_based'' now clock \<and>
     last (console (continuous_speak_emotion st (Some fe) face voice now clock)) =
       (emotion_speak_count st + 1,
        spoken_messages (emotion fe) ! ((emotion_speak_count st + 1) mod 8),
        ''time_based'', now) \<and>
     fst (evaluate_triggers st fused face voice now) =
       last_true_reason (False, '''')
         (zip (trigger_conditions st fused face voice now) trigger_reasons)"
  apply (intro conjI)
  subgoal
    by (simp add: evaluate_triggers_def Let_def split: option.split prod.split)
  subgoal
    by (simp add: continuous_speak_emotion_def evaluate_triggers_def Let_def
             split: option.split prod.split)
  subgoal
    by (simp add: continuous_speak_emotion_def evaluate_triggers_def
          execute_emotion_speaking_def select_message_def spoken_messages_def Let_def
             split: option.split prod.split)
  subgoal
    by (rule evaluate_triggers_decision)
  done

theorem time_based_trigger_witness:
  "enabled (tts (detector_init\<lparr>current_emotion := Some ''happy'', last_spoken_time := 7\<rparr>)) \<and>
   fst (evaluate_triggers
          (detector_init\<lparr>current_emotion := Some ''happy'', last_spoken_time := 7\<rparr>)
          (Some \<lparr>emotion = ''happy'', confidence = 0.5, source = ''face_only''\<rparr>)
          (Some \<lparr>emotion = ''happy'', confidence = 0.625\<rparr>) (None :: estimate option) 10) =
     (True, ''time_based'')"
proof -
  let ?st = "detector_init\<lparr>current_emotion := Some ''happy'', last_spoken_time := 7\<rparr>"
  let ?fe = "\<lparr>emotion = ''happy'', confidence = 0.5, source = ''face_only''\<rparr>"
  have h1: "enabled (tts ?st)" by (simp add: detector_init_def)
  have h2: "current_emotion ?st = Some (emotion ?fe)" by simp
  have h3: "0.4 < confidence ?fe" by simp
  have h4: "confidence ?fe \<le> 0.85" by simp
  have h5: "10 - last_spoken_time ?st > 2" by simp
  from time_based_trigger [OF h1 h2 h3 h4 h5, THEN conjunct1] h1
  show ?thesis by simp
qed

text \<open>
  C9. For face and voice confidences in the unit interval, a fused result with provenance
  \<open>face_dominant\<close> or \<open>voice_dominant\<close> has confidence at most 0.7, one with provenance
  \<open>face_only\<close> or \<open>voice_only\<close> has confidence at most 0.8, so a confidence above 0.85
  occurs only with provenance \<open>agreement\<close>, and the \<open>high_confidence\<close> reason is
  recorded only for an agreement.
\<close>

theorem high_confidence_only_on_agreement:
  "confidence_in_unit face \<Longrightarrow> confidence_in_unit voice \<Longrightarrow>
   fuse_emotions face voice = Some r \<Longrightarrow>
     (source r = ''face_dominant'' \<or> source r = ''voice_dominant'' \<longrightarrow> confidence r \<le> 0.7) \<and>
     (source r = ''face_only'' \<or> source r = ''voice_only'' \<longrightarrow> confidence r \<le> 0.8) \<and>
     (confidence r > 0.85 \<longrightarrow> source r = ''agreement'') \<and>
     (snd (fst (evaluate_triggers st (fuse_emotions face voice) face voice now)) =
        ''high_confidence'' \<longrightarrow> source r = ''agreement'')"
proof (intro conjI)
  assume a: "confidence_in_unit face" "confidence_in_unit voice"
    "fuse_emotions face voice = Some r"
  show "source r = ''face_dominant'' \<or> source r = ''voice_dominant'' \<longrightarrow> confidence r \<le> 0.7"
    using fuse_source_bounds(1) [OF a] .
  show "source r = ''face_only'' \<or> source r = ''voice_only'' \<longrightarrow> confidence r \<le> 0.8"
    using fuse_source_bounds(2) [OF a] .
  show "confidence r > 0.85 \<longrightarrow> source r = ''agreement''"
    using fuse_source_bounds(3) [OF a] .
  show "snd (fst (evaluate_triggers st (fuse_emotions face voice) face voice now)) =
        ''high_confidence'' \<longrightarrow> source r = ''agreement''"
  proof
    assume "snd (fst (evaluate_triggers st (fuse_emotions face voice) face voice now)) =
        ''high_confidence''"
    then obtain fe where "fuse_emotions face voice = Some fe" "confidence fe > 0.85"
      using high_confidence_reason by blast
    with a(3) have "confidence r > 0.85" by simp
    with fuse_source_bounds(3) [OF a] show "source r = ''agreement''" by simp
  qed
qed

theorem high_confidence_only_on_agreement_witness:
  "confidence_in_unit (Some \<lparr>emotion = ''sad'', confidence = 0.5\<rparr>) \<and>
   confidence_in_unit (Some \<lparr>emotion = ''angry'', confidence = 0.9\<rparr>) \<and>
   fuse_emotions (Some \<lparr>emotion = ''sad'', confidence = 0.5\<rparr>)
                 (Some \<lparr>emotion = ''angry'', confidence = 0.9\<rparr>) =
     Some \<lparr>emotion = ''sad'', confidence = 0.35, source = ''face_dominant''\<rparr> \<and>
   confidence \<lparr>emotion = ''sad'', confidence = 0.35, source = ''face_dominant''\<rparr> \<le> 0.7"
proof -
  let ?f = "\<lparr>emotion = ''sad'', confidence = 0.5\<rparr>"
  let ?v = "\<lparr>emotion = ''angry'', confidence = 0.9\<rparr>"
  let ?r = "\<lparr>emotion = ''sad'', confidence = 0.35, source = ''face_dominant''\<rparr>"
  have h1: "confidence_in_unit (Some ?f)" by (simp add: confidence_in_unit_def)
  have h2: "confidence_in_unit (Some ?v)" by (simp add: confidence_in_unit_def)
  have h3: "fuse_emotions (Some ?f) (Some ?v) = Some ?r" by (simp add: fuse_defs Let_def)
  have "source ?r = ''face_dominant'' \<or> source ?r = ''voice_dominant'' \<longrightarrow> confidence ?r \<le> 0.7"
    using high_confidence_only_on_agreement [OF h1 h2 h3, THEN conjunct1] .
  then have "confidence ?r \<le> 0.7" by simp
  with h1 h2 h3 show ?thesis by blast
qed

text \<open>
  C10. With speech switched off, a cycle of the trigger logic returns at once: the whole
  state, and with it the last spoken label and time, the last face and voice labels and
  the speech counter, is unchanged.
\<close>

theorem speech_disabled_is_noop:
  "\<not> enabled (tts st) \<Longrightarrow>
     continuous_speak_emotion st final_emotion face_result voice_result current_time clock = st"
  by (simp add: continuous_speak_emotion_def)

theorem speech_disabled_is_noop_witness:
  "\<not> enabled (tts (detector_init\<lparr>tts := (tts detector_init)\<lparr>enabled := False\<rparr>\<rparr>)) \<and>
   continuous_speak_emotion (detector_init\<lparr>tts := (tts detector_init)\<lparr>enabled := False\<rparr>\<rparr>)
     (Some \<lparr>emotion = ''happy'', confidence = 1, source = ''agreement''\<rparr>)
     (Some \<lparr>emotion = ''happy'', confidence = 0.9\<rparr>)
     (Some \<lparr>emotion = ''happy'', confidence = 0.6\<rparr>) 10 10 =
   detector_init\<lparr>tts := (tts detector_init)\<lparr>enabled := False\<rparr>\<rparr>"
proof -
  let ?st = "detector_init\<lparr>tts := (tts detector_init)\<lparr>enabled := False\<rparr>\<rparr>"
  have h: "\<not> enabled (tts ?st)" by simp
  from speech_disabled_is_noop [OF h] h show ?thesis by blast
qed

text \<open>
  C2, at a concrete cycle. The last speech was one second ago, the face estimate is
  (happy, 0.9), there is no voice estimate, and the fused result is (happy, 0.72) with
  provenance \<open>face_only\<close>. The cycle fires with the reason \<open>face_changed\<close>, the
  counter becomes 1, the last spoken label and time become happy and the current time, and
  the message selected and printed is \<open>Face shows happy\<close>. The text put on the speech
  queue, however, is the one that \<^verbatim>\<open>speak_emotion_now\<close> takes from its own rotation
  of four texts: \<open>happy detected\<close>.
\<close>

theorem spoken_text_differs_from_selected_message:
  "fuse_emotions (Some \<lparr>emotion = ''happy'', confidence = 0.9\<rparr>) (None :: estimate option) =
     Some \<lparr>emotion = ''happy'', confidence = 0.72, source = ''face_only''\<rparr> \<and>
   continuous_speak_emotion (detector_init\<lparr>last_spoken_time := 9\<rparr>)
       (Some \<lparr>emotion = ''happy'', confidence = 0.72, source = ''face_only''\<rparr>)
       (Some \<lparr>emotion = ''happy'', confidence = 0.9\<rparr>) (None :: estimate option) 10 10 =
     \<lparr>tts = \<lparr>enabled = True, engine = True, emotion_count = 1,
              speak_queue = [(''happy detected'', 10)], last_speak_time = 10\<rparr>,
      current_emotion = Some ''happy'', last_spoken_time = 10,
      last_face_emotion = Some ''happy'', last_voice_emotion = None,
      emotion_speak_count = 1,
      console = [(1, ''Face shows happy'', ''face_changed'', 10)]\<rparr>"
  by (simp add: fuse_defs continuous_speak_emotion_def evaluate_triggers_def
        execute_emotion_speaking_def speak_emotion_now_def select_message_def
        tts_messages_def detector_init_def Let_def)

section \<open>Sliding window\<close>


lemma capture_loop_append:
  "capture_loop ac (ps @ qs) s = capture_loop ac qs (capture_loop ac ps s)"
  by (induction ps arbitrary: s) auto

lemma capture_step_below:
  "length buf + length chunk < sample_rate ac * buffer_duration ac \<Longrightarrow>
     capture_step ac (Some chunk) (buf, ws) = (None, buf @ chunk, ws)"
  by (simp add: capture_step_def Let_def)

lemma capture_loop_below:
  "length buf + length (concat blocks) < sample_rate ac * buffer_duration ac \<Longrightarrow>
     capture_loop ac (map Some blocks) (buf, ws) = (buf @ concat blocks, ws)"
proof (induction blocks arbitrary: buf)
  case Nil
  then show ?case by simp
next
  case (Cons b bs)
  then have "length buf + length b < sample_rate ac * buffer_duration ac" by simp
  then have "capture_step ac (Some b) (buf, ws) = (None, buf @ b, ws)"
    by (rule capture_step_below)
  moreover have "length (buf @ b) + length (concat bs) < sample_rate ac * buffer_duration ac"
    using Cons.prems by simp
  ultimately show ?case using Cons.IH [of "buf @ b"] by simp
qed

lemma length_py_last:
  "0 < n \<Longrightarrow> n \<le> length xs \<Longrightarrow> length (py_last n xs) = n"
  by (simp add: py_last_def)

lemma py_last_py_last:
  "0 < m \<Longrightarrow> m \<le> n \<Longrightarrow> n \<le> length xs \<Longrightarrow> py_last m xs = drop (n - m) (py_last n xs)"
  by (simp add: py_last_def)

lemma capture_step_reached:
  assumes "0 < sample_rate ac" "1 \<le> buffer_duration ac"
    and "sample_rate ac * buffer_duration ac \<le> length (buf @ chunk)"
  shows "\<exists>w acc.
     capture_step ac (Some chunk) (buf, ws) =
       (Some w, acc, if has_voice_detector ac then ws @ [w] else ws) \<and>
     w = drop (length (buf @ chunk) - sample_rate ac * buffer_duration ac) (buf @ chunk) \<and>
     length w = sample_rate ac * buffer_duration ac \<and>
     acc = drop (sample_rate ac * buffer_duration ac - sample_rate ac) w \<and>
     length acc = sample_rate ac"
proof -
  define t where "t = sample_rate ac * buffer_duration ac"
  define xs where "xs = buf @ chunk"
  have t: "sample_rate ac \<le> t" "0 < t" "t \<le> length xs"
    using assms by (auto simp: t_def xs_def)
  have step: "capture_step ac (Some chunk) (buf, ws) =
      (Some (py_last t xs), py_last (sample_rate ac) xs,
       if has_voice_detector ac then ws @ [py_last t xs] else ws)"
    using t(3) by (simp add: capture_step_def Let_def t_def xs_def)
  have w: "py_last t xs = drop (length xs - t) xs"
    using t(2) by (simp add: py_last_def)
  have lw: "length (py_last t xs) = t"
    using t by (simp add: length_py_last)
  have acc: "py_last (sample_rate ac) xs = drop (t - sample_rate ac) (py_last t xs)"
    using assms(1) t by (simp add: py_last_py_last)
  have lacc: "length (py_last (sample_rate ac) xs) = sample_rate ac"
    using assms(1) t by (simp add: length_py_last)
  show ?thesis
    unfolding t_def [symmetric] xs_def [symmetric]
    using step w lw acc lacc by blast
qed

lemma concat_replicate_replicate:
  "concat (replicate k (replicate n x)) = replicate (k * n) x"
  by (induction k) (simp_all add: replicate_add)


lemma capture_loop_snoc:
  "capture_loop ac (map Some (bs @ [b])) s =
     snd (capture_step ac (Some b) (capture_loop ac (map Some bs) s))"
  by (simp add: capture_loop_append)

lemma capture_loop_empty_polls:
  "capture_loop ac (replicate n None) (buf, ws) = (buf, ws)"
  by (induction n) (simp_all add: capture_step_def)

lemma replicate_snoc: "replicate (Suc n) x = replicate n x @ [x]"
  by (simp add: replicate_append_same)

lemma mic_simps:
  "sample_rate mic = 16000" "buffer_duration mic = 3" "has_voice_detector mic"
  by (simp_all add: mic_def set_voice_detector_def AudioCapture_init_def)

lemma capture_loop_exact:
  assumes "0 < sample_rate ac" "1 \<le> buffer_duration ac"
    and "length buf = sample_rate ac"
    and "chunk \<noteq> []"
    and "length (concat blocks) + length chunk =
           sample_rate ac * buffer_duration ac - sample_rate ac"
  shows "capture_loop ac (map Some (blocks @ [chunk])) (buf, ws) =
     (drop (sample_rate ac * buffer_duration ac - sample_rate ac) (buf @ concat blocks @ chunk),
      if has_voice_detector ac then ws @ [buf @ concat blocks @ chunk] else ws)"
proof -
  define t where "t = sample_rate ac * buffer_duration ac"
  have t: "sample_rate ac \<le> t" "0 < t"
    using assms(1,2) by (auto simp: t_def)
  have "length (concat blocks) + length chunk = t - sample_rate ac"
    using assms(5) by (simp add: t_def)
  with t(1) assms(3) have len: "length buf + length (concat blocks) + length chunk = t"
    by linarith
  have "length chunk > 0" using assms(4) by simp
  with len have "length buf + length (concat blocks) < t" by linarith
  then have a: "capture_loop ac (map Some blocks) (buf, ws) = (buf @ concat blocks, ws)"
    unfolding t_def by (rule capture_loop_below)
  have l: "length ((buf @ concat blocks) @ chunk) = t" using len by simp
  have b: "capture_step ac (Some chunk) (buf @ concat blocks, ws) =
      (Some ((buf @ concat blocks) @ chunk),
       drop (t - sample_rate ac) ((buf @ concat blocks) @ chunk),
       if has_voice_detector ac then ws @ [(buf @ concat blocks) @ chunk] else ws)"
    using l t assms(1) unfolding capture_step_def py_last_def Let_def t_def [symmetric]
    by simp
  show ?thesis
    unfolding capture_loop_snoc a b t_def [symmetric] by simp
qed

text \<open>
  C7, the claim as stated fails on the capture object of the program. With the blocks of
  1024 samples that the stream delivers, the first window is built at the 47th block; the
  accumulator then holds 16000 samples, and the next window is built at the 32nd further
  block. It holds 32768 new samples and only the last 15232 of the 16000 carried over:
  the cycle advances by 32768 samples, not by 48000 - 16000 = 32000.
\<close>

theorem cycle_advance_counterexample:
  "snd (capture_loop mic
          (map Some (replicate 47 (replicate 1024 (0::real)) @ replicate 32 (replicate 1024 1)))
          ([], [])) =
     [replicate 48000 0, replicate 15232 0 @ replicate 32768 1] \<and>
   length (replicate 32768 (1::real)) \<noteq> sample_rate mic * buffer_duration mic - sample_rate mic"
proof -
  let ?z = "replicate 1024 (0::real)"
  let ?o = "replicate 1024 (1::real)"
  have s47: "replicate 47 ?z = replicate 46 ?z @ [?z]"
    using replicate_snoc [of 46 ?z] by simp
  have s32: "replicate 32 ?o = replicate 31 ?o @ [?o]"
    using replicate_snoc [of 31 ?o] by simp
  have "capture_loop mic (map Some (replicate 46 ?z)) ([], []) =
          ([] @ concat (replicate 46 ?z), [])"
    by (rule capture_loop_below) (simp add: mic_simps concat_replicate_replicate)
  then have a: "capture_loop mic (map Some (replicate 46 ?z)) ([], []) = (replicate 47104 0, [])"
    by (simp add: concat_replicate_replicate)
  have b: "snd (capture_step mic (Some ?z) (replicate 47104 0, [])) =
          (replicate 16000 0, [replicate 48000 0])"
    by (simp add: capture_step_def py_last_def Let_def mic_simps replicate_add [symmetric])
  have ab: "capture_loop mic (map Some (replicate 47 ?z)) ([], []) =
          (replicate 16000 0, [replicate 48000 0])"
    unfolding s47 capture_loop_snoc a b ..
  have "capture_loop mic (map Some (replicate 31 ?o)) (replicate 16000 0, [replicate 48000 0]) =
          (replicate 16000 0 @ concat (replicate 31 ?o), [replicate 48000 0])"
    by (rule capture_loop_below) (simp add: mic_simps concat_replicate_replicate)
  then have c: "capture_loop mic (map Some (replicate 31 ?o))
          (replicate 16000 0, [replicate 48000 0]) =
          (replicate 16000 0 @ replicate 31744 1, [replicate 48000 0])"
    by (simp add: concat_replicate_replicate)
  have d: "snd (capture_step mic (Some ?o)
             (replicate 16000 0 @ replicate 31744 1, [replicate 48000 0])) =
          (replicate 16000 1, [replicate 48000 0, replicate 15232 0 @ replicate 32768 1])"
    by (simp add: capture_step_def py_last_def Let_def mic_simps replicate_add [symmetric])
  have cd: "capture_loop mic (map Some (replicate 32 ?o)) (replicate 16000 0, [replicate 48000 0]) =
          (replicate 16000 1, [replicate 48000 0, replicate 15232 0 @ replicate 32768 1])"
    unfolding s32 capture_loop_snoc c d ..
  show ?thesis
    unfolding map_append capture_loop_append ab cd by (simp add: mic_simps)
qed


text \<open>
  C7, as amended. For a positive sample rate and a window of at least one second: when a
  block brings the accumulator to the target length or beyond, the window built is the
  last \<open>target_samples\<close> samples of the accumulator, of length exactly
  \<open>target_samples\<close>, and the accumulator afterwards is the last \<open>sample_rate\<close> samples
  of that window, of length exactly \<open>sample_rate\<close>; below the target the block is only
  appended. Empty polls change nothing, so no second window is built until new blocks
  arrive. From an accumulator of \<open>sample_rate\<close> samples no window is built while fewer
  than \<open>target_samples - sample_rate\<close> new samples have arrived, and when the blocks add up
  to exactly that many, the window is the carried samples followed by the new ones.
\<close>

theorem sliding_window_cycle:
  "0 < sample_rate ac \<Longrightarrow> 1 \<le> buffer_duration ac \<Longrightarrow>
     (sample_rate ac * buffer_duration ac \<le> length (buf @ chunk) \<longrightarrow>
        (\<exists>w acc.
           capture_step ac (Some chunk) (buf, ws) =
             (Some w, acc, if has_voice_detector ac then ws @ [w] else ws) \<and>
           w = drop (length (buf @ chunk) - sample_rate ac * buffer_duration ac) (buf @ chunk) \<and>
           length w = sample_rate ac * buffer_duration ac \<and>
           acc = drop (sample_rate ac * buffer_duration ac - sample_rate ac) w \<and>
           length acc = sample_rate ac)) \<and>
     (length (buf @ chunk) < sample_rate ac * buffer_duration ac \<longrightarrow>
        capture_step ac (Some chunk) (buf, ws) = (None, buf @ chunk, ws)) \<and>
     capture_loop ac (replicate n None) (buf, ws) = (buf, ws) \<and>
     (length buf = sample_rate ac \<and>
      length (concat blocks) < sample_rate ac * buffer_duration ac - sample_rate ac \<longrightarrow>
        capture_loop ac (map Some blocks) (buf, ws) = (buf @ concat blocks, ws)) \<and>
     (length buf = sample_rate ac \<and> chunk \<noteq> [] \<and>
      length (concat blocks) + length chunk =
        sample_rate ac * buffer_duration ac - sample_rate ac \<longrightarrow>
        capture_loop ac (map Some (blocks @ [chunk])) (buf, ws) =
          (drop (sample_rate ac * buffer_duration ac - sample_rate ac)
             (buf @ concat blocks @ chunk),
           if has_voice_detector ac then ws @ [buf @ concat blocks @ chunk] else ws))"
proof (intro conjI impI)
  assume sr: "0 < sample_rate ac" and dur: "1 \<le> buffer_duration ac"
  {
    assume "sample_rate ac * buffer_duration ac \<le> length (buf @ chunk)"
    with sr dur show "\<exists>w acc.
           capture_step ac (Some chunk) (buf, ws) =
             (Some w, acc, if has_voice_detector ac then ws @ [w] else ws) \<and>
           w = drop (length (buf @ chunk) - sample_rate ac * buffer_duration ac) (buf @ chunk) \<and>
           length w = sample_rate ac * buffer_duration ac \<and>
           acc = drop (sample_rate ac * buffer_duration ac - sample_rate ac) w \<and>
           length acc = sample_rate ac"
      by (rule capture_step_reached)
  }
  {
    assume "length (buf @ chunk) < sample_rate ac * buffer_duration ac"
    then show "capture_step ac (Some chunk) (buf, ws) = (None, buf @ chunk, ws)"
      by (simp add: capture_step_below)
  }
  show "capture_loop ac (replicate n None) (buf, ws) = (buf, ws)"
    by (rule capture_loop_empty_polls)
  {
    assume "length buf = sample_rate ac \<and>
      length (concat blocks) < sample_rate ac * buffer_duration ac - sample_rate ac"
    then have "length buf + length (concat blocks) < sample_rate ac * buffer_duration ac"
      by linarith
    then show "capture_loop ac (map Some blocks) (buf, ws) = (buf @ concat blocks, ws)"
      by (rule capture_loop_below)
  }
  {
    assume "length buf = sample_rate ac \<and> chunk \<noteq> [] \<and>
      length (concat blocks) + length chunk =
        sample_rate ac * buffer_duration ac - sample_rate ac"
    then show "capture_loop ac (map Some (blocks @ [chunk])) (buf, ws) =
          (drop (sample_rate ac * buffer_duration ac - sample_rate ac)
             (buf @ concat blocks @ chunk),
           if has_voice_detector ac then ws @ [buf @ concat blocks @ chunk] else ws)"
      using capture_loop_exact [OF sr dur] by blast
  }
qed

theorem sliding_window_cycle_witness:
  "0 < sample_rate mic \<and> 1 \<le> buffer_duration mic \<and>
   sample_rate mic * buffer_duration mic \<le> length (replicate 47104 (0::real) @ replicate 1024 0) \<and>
   capture_step mic (Some (replicate 1024 (0::real))) (replicate 47104 0, []) =
     (Some (replicate 48000 0), replicate 16000 0, [replicate 48000 0])"
proof -
  have h1: "0 < sample_rate mic" and h2: "1 \<le> buffer_duration mic"
    by (simp_all add: mic_simps)
  have h3: "sample_rate mic * buffer_duration mic \<le>
      length (replicate 47104 (0::real) @ replicate 1024 0)"
    by (simp add: mic_simps)
  from sliding_window_cycle [OF h1 h2, THEN conjunct1, rule_format, OF h3, of "[]"]
  obtain w acc where
    "capture_step mic (Some (replicate 1024 (0::real))) (replicate 47104 0, []) =
       (Some w, acc, if has_voice_detector mic then [] @ [w] else [])"
    "w = drop (length (replicate 47104 (0::real) @ replicate 1024 0) -
               sample_rate mic * buffer_duration mic) (replicate 47104 0 @ replicate 1024 0)"
    "acc = drop (sample_rate mic * buffer_duration mic - sample_rate mic) w"
    by blast
  then have "capture_step mic (Some (replicate 1024 (0::real))) (replicate 47104 0, []) =
     (Some (replicate 48000 0), replicate 16000 0, [replicate 48000 0])"
    by (simp add: mic_simps replicate_add [symmetric])
  with h1 h2 h3 show ?thesis by blast
qed

section \<open>Voice classifier\<close>


lemma dict_modify_keys:
  "dict_modify k f d = Inr d' \<Longrightarrow> map fst d' = map fst d"
  by (auto simp: dict_modify_def split: if_splits)

lemma dict_modify_ok:
  "k \<in> set (map fst d) \<Longrightarrow> \<exists>d'. dict_modify k f d = Inr d'"
  by (simp add: dict_modify_def)

lemma add_all_keys:
  "add_all bs d = Inr d' \<Longrightarrow> map fst d' = map fst d"
proof (induction bs arbitrary: d)
  case Nil
  then show ?case by simp
next
  case (Cons b bs)
  obtain k c where b: "b = (k, c)" by (cases b)
  from Cons.prems obtain d1 where d1: "dict_modify k (\<lambda>v. v + c) d = Inr d1"
    and rest: "add_all bs d1 = Inr d'"
    by (auto simp: b split: sum.splits)
  from Cons.IH [OF rest] dict_modify_keys [OF d1] show ?case by simp
qed

lemma add_all_ok:
  "set (map fst bs) \<subseteq> set (map fst d) \<Longrightarrow> \<exists>d'. add_all bs d = Inr d'"
proof (induction bs arbitrary: d)
  case Nil
  then show ?case by simp
next
  case (Cons b bs)
  obtain k c where b: "b = (k, c)" by (cases b)
  from Cons.prems have "k \<in> set (map fst d)" by (simp add: b)
  then obtain d1 where d1: "dict_modify k (\<lambda>v. v + c) d = Inr d1"
    using dict_modify_ok by blast
  have "set (map fst bs) \<subseteq> set (map fst d1)"
    using Cons.prems dict_modify_keys [OF d1] by simp
  from Cons.IH [OF this] obtain d' where "add_all bs d1 = Inr d'" by blast
  then show ?case by (simp add: b d1)
qed

lemma map_fst_rescale:
  "map fst (map (\<lambda>(k, v). if P k then (k, f v) else (k, v)) d) = map fst d"
  by (induction d) auto

lemma prevent_repetition_keys:
  assumes "prevent_repetition seq d = Inr d'"
  shows "map fst d' = map fst d"
proof (cases "2 < length seq \<and> 2 \<le> count_list seq (last seq)")
  case True
  with assms obtain d1 where d1: "dict_modify (last seq) (\<lambda>v. v * 0.7) d = Inr d1"
    and d': "d' = map (\<lambda>(k, v). if k \<noteq> last seq then (k, v * 1.1) else (k, v)) d1"
    by (auto simp: prevent_repetition_def Let_def split: sum.splits)
  have "map fst d' = map fst d1" unfolding d' by (rule map_fst_rescale)
  with dict_modify_keys [OF d1] show ?thesis by simp
next
  case False
  with assms show ?thesis
    by (auto simp: prevent_repetition_def Let_def split: if_splits)
qed

lemma map_fst_enumerate_update:
  "map fst (map (\<lambda>(i, (k, v)). (k, g i v)) (enumerate n d)) = map fst d"
  by (induction d arbitrary: n) (simp_all add: case_prod_unfold)

lemma add_jitter_keys: "map fst (add_jitter rnd d) = map fst d"
  unfolding add_jitter_def by (rule map_fst_enumerate_update)

lemma add_jitter_floor: "x \<in> set (add_jitter rnd d) \<Longrightarrow> 0.05 \<le> snd x"
  by (auto simp: add_jitter_def max_def)

lemma add_jitter_nonempty: "d \<noteq> [] \<Longrightarrow> add_jitter rnd d \<noteq> []"
  by (cases d) (simp_all add: add_jitter_def)

lemma sum_list_floor:
  "\<forall>x \<in> set xs. (c::real) \<le> x \<Longrightarrow> c * real (length xs) \<le> sum_list xs"
  by (induction xs) (auto simp: algebra_simps)

lemma sum_list_map_divide:
  "sum_list (map (\<lambda>v. v / c) xs) = sum_list xs / (c::real)"
  by (induction xs) (simp_all add: add_divide_distrib)

lemma sum_list_floor_pos:
  assumes "d \<noteq> []" and "\<forall>x \<in> set d. (0.05::real) \<le> snd x"
  shows "0 < sum_list (map snd d)"
proof -
  have le: "0.05 * real (length (map snd d)) \<le> sum_list (map snd d)"
    using assms(2) by (intro sum_list_floor) auto
  have "0 < real (length (map snd d))" using assms(1) by simp
  then have "(0::real) < 0.05 * real (length (map snd d))" by simp
  from this le show ?thesis by (rule less_le_trans)
qed

lemma normalize_props:
  assumes "normalize d = Inr d'" and "d \<noteq> []" and "\<forall>x \<in> set d. 0.05 \<le> snd x"
  shows "map fst d' = map fst d"
    and "sum_list (map snd d') = 1"
    and "\<forall>x \<in> set d'. 0 < snd x \<and> snd x \<le> 1"
proof -
  define total where "total = sum_list (map snd d)"
  have pos: "\<forall>v \<in> set (map snd d). 0 \<le> v" using assms(3) by auto
  have tpos: "0 < total"
    unfolding total_def using assms(2,3) by (rule sum_list_floor_pos)
  have d': "d' = map (\<lambda>(k, v). (k, v / total)) d"
    using assms(1) tpos by (auto simp: normalize_def Let_def total_def)
  show "map fst d' = map fst d"
    unfolding d' by (induction d) auto
  have "map snd d' = map (\<lambda>v. v / total) (map snd d)"
    unfolding d' by (induction d) auto
  then have "sum_list (map snd d') = sum_list (map snd d) / total"
    by (simp only: sum_list_map_divide)
  then show "sum_list (map snd d') = 1" using tpos by (simp add: total_def)
  show "\<forall>x \<in> set d'. 0 < snd x \<and> snd x \<le> 1"
  proof
    fix x assume "x \<in> set d'"
    then obtain k v where kv: "(k, v) \<in> set d" and x: "x = (k, v / total)"
      unfolding d' by auto
    have "0.05 \<le> v" using assms(3) kv by force
    moreover have "v \<le> total"
      unfolding total_def using kv pos by (intro member_le_sum_list) force+
    ultimately show "0 < snd x \<and> snd x \<le> 1" using tpos by (simp add: x)
  qed
qed

lemma normalize_ok:
  assumes "d \<noteq> []" and "\<forall>x \<in> set d. 0.05 \<le> snd x"
  shows "\<exists>d'. normalize d = Inr d'"
  using sum_list_floor_pos [OF assms] by (simp add: normalize_def Let_def)


lemma max_from_props:
  "max_from best d \<in> set (best # d) \<and> (\<forall>x \<in> set (best # d). snd x \<le> snd (max_from best d))"
proof (induction d arbitrary: best)
  case Nil
  then show ?case by simp
next
  case (Cons kv d)
  show ?case
  proof (cases "snd kv > snd best")
    case True
    with Cons.IH [of kv] show ?thesis by auto
  next
    case False
    with Cons.IH [of best] show ?thesis by auto
  qed
qed

lemma py_max_key_props:
  assumes "py_max_key d = Inr k"
  shows "\<exists>v. (k, v) \<in> set d \<and> (\<forall>x \<in> set d. snd x \<le> v)"
proof -
  from assms obtain kv d0 where d: "d = kv # d0" and k: "k = fst (max_from kv d0)"
    by (auto simp: py_max_key_def split: list.splits)
  from max_from_props [of kv d0] show ?thesis
    unfolding d k by (intro exI [of _ "snd (max_from kv d0)"]) simp
qed

lemma py_max_key_ok: "d \<noteq> [] \<Longrightarrow> \<exists>k. py_max_key d = Inr k"
  by (cases d) (simp_all add: py_max_key_def)

lemma dict_get_member: "dict_get d k = Inr b \<Longrightarrow> (k, b) \<in> set d"
  by (auto simp: dict_get_def split: option.splits dest: map_of_SomeD)

lemma dict_get_ok: "k \<in> set (map fst d) \<Longrightarrow> \<exists>b. dict_get d k = Inr b"
  by (cases "map_of d k") (auto simp: dict_get_def map_of_eq_None_iff)

lemma dict_get_max:
  assumes "distinct (map fst d)" and "py_max_key d = Inr k" and "dict_get d k = Inr b"
  shows "b = Max (snd ` set d)"
proof -
  from py_max_key_props [OF assms(2)] obtain v where
    v: "(k, v) \<in> set d" "\<forall>x \<in> set d. snd x \<le> v" by blast
  from dict_get_member [OF assms(3)] have "(k, b) \<in> set d" .
  with v(1) assms(1) have "b = v" by (meson eq_key_imp_eq_value)
  have "Max (snd ` set d) = v"
  proof (rule Max_eqI)
    show "finite (snd ` set d)" by simp
    show "\<And>y. y \<in> snd ` set d \<Longrightarrow> y \<le> v" using v(2) by auto
    show "v \<in> snd ` set d" using v(1) by force
  qed
  with \<open>b = v\<close> show ?thesis by simp
qed

lemma base_emotions_keys:
  "set (map fst base_emotions) = set EMOTIONS" "distinct (map fst base_emotions)"
  "base_emotions \<noteq> []"
  by (auto simp: base_emotions_def EMOTIONS_def)

lemma add_realtime_variety_props:
  assumes "add_realtime_variety rnd seq d now = Inr d'" and "d \<noteq> []"
  shows "map fst d' = map fst d"
    and "sum_list (map snd d') = 1"
    and "\<forall>x \<in> set d'. 0 < snd x \<and> snd x \<le> 1"
proof -
  from assms(1) obtain d1 d2 where
    d1: "add_all (phase_rules (py_fmod now 15 / 15)) d = Inr d1"
    and d2: "prevent_repetition seq d1 = Inr d2"
    and n: "normalize (add_jitter rnd d2) = Inr d'"
    by (auto simp: add_realtime_variety_def Let_def split: sum.splits)
  have k2: "map fst d2 = map fst d"
    using add_all_keys [OF d1] prevent_repetition_keys [OF d2] by simp
  with assms(2) have "d2 \<noteq> []" by auto
  then have ne: "add_jitter rnd d2 \<noteq> []" by (rule add_jitter_nonempty)
  have fl: "\<forall>x \<in> set (add_jitter rnd d2). 0.05 \<le> snd x"
    using add_jitter_floor by blast
  show "map fst d' = map fst d"
    using normalize_props(1) [OF n ne fl] add_jitter_keys [of rnd d2] k2 by simp
  show "sum_list (map snd d') = 1"
    using normalize_props(2) [OF n ne fl] .
  show "\<forall>x \<in> set d'. 0 < snd x \<and> snd x \<le> 1"
    using normalize_props(3) [OF n ne fl] .
qed

lemma np_mean_squares_nonneg: "0 \<le> np_mean (map (\<lambda>x. x ^ 2) xs)"
  by (auto simp: np_mean_def intro!: divide_nonneg_nonneg sum_list_nonneg)

lemma analyze_result:
  assumes "analyze_audio_realtime rolloff_of pitch_of rnd audio_data now seq = (Some est, seq')"
  obtains volume scores0 best base where
    "np_max (map abs audio_data) = Inr volume" "\<not> volume < 0.005"
    "calculate_realtime_emotions volume (np_mean (map (\<lambda>x. x ^ 2) audio_data))
       (sum_list (map abs (np_diff (map sgn audio_data))) / real (length audio_data))
       (rolloff_of audio_data) (pitch_of audio_data) = Inr scores0"
    "add_realtime_variety rnd seq scores0 now = Inr (all_predictions est)"
    "py_max_key (all_predictions est) = Inr best"
    "dict_get (all_predictions est) best = Inr base"
    "emotion est = best"
    "confidence est =
       min 0.92 (base + min 0.3 (volume * 2 + sqrt (np_mean (map (\<lambda>x. x ^ 2) audio_data)) * 1.5))"
    "seq' = (if length (seq @ [best]) > 10 then tl (seq @ [best]) else seq @ [best])"
  using assms
  by (auto simp: analyze_audio_realtime_def Let_def split: sum.splits if_splits)


lemma calculate_realtime_emotions_keys:
  "calculate_realtime_emotions volume energy zc ro pv = Inr d \<Longrightarrow>
     map fst d = map fst base_emotions"
  unfolding calculate_realtime_emotions_def by (rule add_all_keys)

lemma voice_estimate_props:
  assumes "analyze_audio_realtime rolloff_of pitch_of rnd audio_data now seq = (Some est, seq')"
  shows "0 < confidence est" and "confidence est \<le> 0.92"
    and "emotion est \<in> set EMOTIONS"
    and "sum_list (map snd (all_predictions est)) = 1"
    and "\<exists>volume. np_max (map abs audio_data) = Inr volume \<and>
           confidence est =
             min 0.92 (Max (snd ` set (all_predictions est)) +
                       min 0.3 (volume * 2 +
                                sqrt (np_mean (map (\<lambda>x. x ^ 2) audio_data)) * 1.5))"
proof -
  from assms obtain volume scores0 best base where
    vol: "np_max (map abs audio_data) = Inr volume" "\<not> volume < 0.005"
    and calc: "calculate_realtime_emotions volume (np_mean (map (\<lambda>x. x ^ 2) audio_data))
       (sum_list (map abs (np_diff (map sgn audio_data))) / real (length audio_data))
       (rolloff_of audio_data) (pitch_of audio_data) = Inr scores0"
    and var: "add_realtime_variety rnd seq scores0 now = Inr (all_predictions est)"
    and best: "py_max_key (all_predictions est) = Inr best"
    and base: "dict_get (all_predictions est) best = Inr base"
    and emo: "emotion est = best"
    and conf: "confidence est =
       min 0.92 (base + min 0.3 (volume * 2 + sqrt (np_mean (map (\<lambda>x. x ^ 2) audio_data)) * 1.5))"
    by (rule analyze_result)
  define boost where
    "boost = min 0.3 (volume * 2 + sqrt (np_mean (map (\<lambda>x. x ^ 2) audio_data)) * 1.5)"
  have k0: "map fst scores0 = map fst base_emotions"
    using calc by (rule calculate_realtime_emotions_keys)
  then have ne0: "scores0 \<noteq> []" using base_emotions_keys(3) by auto
  note props = add_realtime_variety_props [OF var ne0]
  have keys: "map fst (all_predictions est) = map fst base_emotions"
    using props(1) k0 by simp
  have mem: "(best, base) \<in> set (all_predictions est)"
    using base by (rule dict_get_member)
  with props(3) have b: "0 < base" "base \<le> 1" by force+
  have "0 \<le> sqrt (np_mean (map (\<lambda>x. x ^ 2) audio_data))"
    using np_mean_squares_nonneg by simp
  with vol(2) have bo: "0 \<le> boost" unfolding boost_def by simp
  have conf': "confidence est = min 0.92 (base + boost)"
    using conf by (simp add: boost_def)
  show "0 < confidence est" using b bo conf' by simp
  show "confidence est \<le> 0.92" unfolding conf' by (rule min.cobounded1)
  have "best \<in> set (map fst (all_predictions est))" using mem by force
  then show "emotion est \<in> set EMOTIONS"
    using keys base_emotions_keys(1) emo by simp
  show "sum_list (map snd (all_predictions est)) = 1" using props(2) .
  have "distinct (map fst (all_predictions est))"
    using keys base_emotions_keys(2) by simp
  from dict_get_max [OF this best base] vol(1) conf
  show "\<exists>volume. np_max (map abs audio_data) = Inr volume \<and>
           confidence est =
             min 0.92 (Max (snd ` set (all_predictions est)) +
                       min 0.3 (volume * 2 +
                                sqrt (np_mean (map (\<lambda>x. x ^ 2) audio_data)) * 1.5))"
    by simp
qed

lemma fold_max_less:
  "x < c \<Longrightarrow> \<forall>y \<in> set xs. y < c \<Longrightarrow> fold max xs x < (c::real)"
  by (induction xs arbitrary: x) auto

lemma silent_analysis:
  assumes "\<forall>x \<in> set audio_data. \<bar>x\<bar> < 0.005"
  shows "analyze_audio_realtime rolloff_of pitch_of rnd audio_data now seq = (None, seq)"
proof (cases audio_data)
  case Nil
  then show ?thesis by (simp add: analyze_audio_realtime_def)
next
  case (Cons a as)
  have "fold max (map abs as) \<bar>a\<bar> < 0.005"
    using assms by (intro fold_max_less) (auto simp: Cons)
  then show ?thesis
    by (simp add: analyze_audio_realtime_def Cons Let_def)
qed

text \<open>
  C6. A window all of whose samples are below the silence threshold 0.005 in absolute value
  (that is, whose peak absolute amplitude is below it) gives no estimate: the analysis
  returns \<^verbatim>\<open>None\<close> and leaves the label history as it was, and \<^verbatim>\<open>process_audio\<close>
  keeps both the current estimate and the history. In particular no estimate with the
  label neutral is produced for silence.
\<close>

theorem silence_gives_no_estimate:
  "\<forall>x \<in> set audio_data. \<bar>x\<bar> < 0.005 \<Longrightarrow>
     analyze_audio_realtime rolloff_of pitch_of rnd audio_data now seq = (None, seq) \<and>
     voice_current_emotion (process_audio rolloff_of pitch_of rnd vd (Some audio_data) now) =
       voice_current_emotion vd \<and>
     emotion_sequence (process_audio rolloff_of pitch_of rnd vd (Some audio_data) now) =
       emotion_sequence vd"
  by (simp add: silent_analysis process_audio_def Let_def)

theorem silence_gives_no_estimate_witness:
  "\<bar>0.001 :: real\<bar> < 0.005 \<and> \<bar>- 0.002 :: real\<bar> < 0.005 \<and>
   analyze_audio_realtime (\<lambda>a. 0.5) (\<lambda>a. 0.5) (\<lambda>i. 0) [0.001, - 0.002] 0 [''happy''] =
     (None, [''happy''])"
proof -
  have h: "\<forall>x \<in> set [0.001, - 0.002 :: real]. \<bar>x\<bar> < 0.005" by simp
  from silence_gives_no_estimate [OF h, THEN conjunct1]
  show ?thesis by simp
qed

text \<open>
  C3, as amended. The variety step rescales exactly when the history has more than two
  entries and its most recent label occurs at least twice anywhere in it: then the score of
  that label is multiplied by 0.7 and every other score by 1.1; otherwise all scores are
  left as they are.
\<close>

theorem prevent_repetition_effect:
  "(2 < length seq \<and> 2 \<le> count_list seq (last seq) \<longrightarrow> last seq \<in> fst ` set d) \<Longrightarrow>
     prevent_repetition seq d =
       Inr (map (\<lambda>(k, v).
                   (k, if 2 < length seq \<and> 2 \<le> count_list seq (last seq)
                       then (if k = last seq then v * 0.7 else v * 1.1)
                       else v)) d)"
  by (auto simp: prevent_repetition_def dict_modify_def Let_def case_prod_unfold)

theorem prevent_repetition_effect_witness:
  "last [''sad'', ''happy'', ''happy''] \<in> fst ` set base_emotions \<and>
   prevent_repetition [''sad'', ''happy'', ''happy''] base_emotions =
     Inr [(''neutral'', 0.165), (''happy'', 0.098), (''sad'', 0.143), (''angry'', 0.132),
          (''surprise'', 0.121), (''fear'', 0.11), (''disgust'', 0.099)]"
proof -
  have h: "2 < length [''sad'', ''happy'', ''happy''] \<and>
           2 \<le> count_list [''sad'', ''happy'', ''happy''] (last [''sad'', ''happy'', ''happy''])
           \<longrightarrow> last [''sad'', ''happy'', ''happy''] \<in> fst ` set base_emotions"
    by (simp add: base_emotions_def)
  have k: "last [''sad'', ''happy'', ''happy''] \<in> fst ` set base_emotions"
    by (simp add: base_emotions_def)
  from prevent_repetition_effect [OF h] k
  show ?thesis by (simp add: base_emotions_def)
qed

text \<open>
  C3, the claim as stated fails. The history happy, sad, happy ends in two different
  labels, yet the scores are rescaled, because the last label occurs twice in the history;
  the history happy, happy ends in two equal labels, yet nothing is rescaled, because it
  has no more than two entries.
\<close>

theorem repetition_counterexample:
  "prevent_repetition [''happy'', ''sad'', ''happy''] base_emotions =
     Inr [(''neutral'', 0.165), (''happy'', 0.098), (''sad'', 0.143), (''angry'', 0.132),
          (''surprise'', 0.121), (''fear'', 0.11), (''disgust'', 0.099)] \<and>
   prevent_repetition [''happy'', ''happy''] base_emotions = Inr base_emotions"
  by (simp add: prevent_repetition_def dict_modify_def base_emotions_def Let_def)


lemma sqrt_quarter: "sqrt (1 / 4) = 1 / 2"
  by (simp add: real_sqrt_divide)

lemma loud_window_analysis:
  "analyze_audio_realtime (\<lambda>a. 0.5) (\<lambda>a. 0.5) (\<lambda>i. 0) [0.5, - 0.5] 0 [] =
     (Some \<lparr>emotion = ''angry'', confidence = 1597 / 2590,
            all_predictions =
              [(''neutral'', 15 / 259), (''happy'', 62 / 259), (''sad'', 13 / 259),
               (''angry'', 82 / 259), (''surprise'', 53 / 259), (''fear'', 10 / 259),
               (''disgust'', 24 / 259)],
            model = ''Real-Time-Audio''\<rparr>,
      [''angry''])"
  by (simp add: analyze_audio_realtime_def calculate_realtime_emotions_def
        add_realtime_variety_def prevent_repetition_def add_jitter_def normalize_def
        py_max_key_def dict_get_def dict_modify_def np_mean_def py_fmod_def
        volume_rules_def energy_rules_def zero_crossing_rules_def spectral_rules_def
        pitch_rules_def phase_rules_def base_emotions_def Let_def sqrt_quarter
        power2_eq_square)


lemma rule_keys:
  "set (map fst (volume_rules a)) \<subseteq> set (map fst base_emotions)"
  "set (map fst (energy_rules a)) \<subseteq> set (map fst base_emotions)"
  "set (map fst (zero_crossing_rules a)) \<subseteq> set (map fst base_emotions)"
  "set (map fst (spectral_rules a)) \<subseteq> set (map fst base_emotions)"
  "set (map fst (pitch_rules a)) \<subseteq> set (map fst base_emotions)"
  "set (map fst (phase_rules a)) \<subseteq> set (map fst base_emotions)"
  by (auto simp: volume_rules_def energy_rules_def zero_crossing_rules_def
        spectral_rules_def pitch_rules_def phase_rules_def base_emotions_def
      split: if_splits)

lemma calculate_realtime_emotions_ok:
  "\<exists>d. calculate_realtime_emotions volume energy zc ro pv = Inr d"
  unfolding calculate_realtime_emotions_def
  by (rule add_all_ok) (use rule_keys in auto)

lemma prevent_repetition_ok:
  assumes "set seq \<subseteq> set (map fst d)"
  shows "\<exists>d'. prevent_repetition seq d = Inr d'"
proof (cases "2 < length seq \<and> 2 \<le> count_list seq (last seq)")
  case True
  then have "seq \<noteq> []" by auto
  then have "last seq \<in> set (map fst d)" using assms last_in_set by blast
  then obtain d1 where "dict_modify (last seq) (\<lambda>v. v * 0.7) d = Inr d1"
    using dict_modify_ok by blast
  with True show ?thesis by (simp add: prevent_repetition_def Let_def)
next
  case False
  then show ?thesis by (auto simp: prevent_repetition_def Let_def)
qed

lemma add_realtime_variety_ok:
  assumes "map fst d = map fst base_emotions" and "set seq \<subseteq> set EMOTIONS"
  shows "\<exists>d'. add_realtime_variety rnd seq d now = Inr d'"
proof -
  have "set (map fst (phase_rules (py_fmod now 15 / 15))) \<subseteq> set (map fst d)"
    using rule_keys(6) assms(1) by simp
  then obtain d1 where d1: "add_all (phase_rules (py_fmod now 15 / 15)) d = Inr d1"
    using add_all_ok by blast
  have k1: "map fst d1 = map fst base_emotions"
    using add_all_keys [OF d1] assms(1) by simp
  then have "set seq \<subseteq> set (map fst d1)"
    using assms(2) base_emotions_keys(1) by simp
  then obtain d2 where d2: "prevent_repetition seq d1 = Inr d2"
    using prevent_repetition_ok by blast
  have "map fst d2 = map fst base_emotions"
    using prevent_repetition_keys [OF d2] k1 by simp
  then have "d2 \<noteq> []" using base_emotions_keys(3) by auto
  then have "add_jitter rnd d2 \<noteq> []" by (rule add_jitter_nonempty)
  moreover have "\<forall>x \<in> set (add_jitter rnd d2). 0.05 \<le> snd x"
    using add_jitter_floor by blast
  ultimately obtain d' where "normalize (add_jitter rnd d2) = Inr d'"
    using normalize_ok by blast
  then show ?thesis
    by (simp add: add_realtime_variety_def Let_def d1 d2)
qed

lemma analyze_returns_estimate:
  assumes "np_max (map abs audio_data) = Inr volume" and "\<not> volume < 0.005"
    and "set seq \<subseteq> set EMOTIONS"
  shows "\<exists>est seq'.
    analyze_audio_realtime rolloff_of pitch_of rnd audio_data now seq = (Some est, seq')"
proof -
  obtain scores0 where calc:
    "calculate_realtime_emotions volume (np_mean (map (\<lambda>x. x ^ 2) audio_data))
       (sum_list (map abs (np_diff (map sgn audio_data))) / real (length audio_data))
       (rolloff_of audio_data) (pitch_of audio_data) = Inr scores0"
    using calculate_realtime_emotions_ok by blast
  have k0: "map fst scores0 = map fst base_emotions"
    using calc by (rule calculate_realtime_emotions_keys)
  then have ne0: "scores0 \<noteq> []" using base_emotions_keys(3) by auto
  obtain scores where var: "add_realtime_variety rnd seq scores0 now = Inr scores"
    using add_realtime_variety_ok [OF k0 assms(3)] by blast
  have "map fst scores = map fst scores0"
    using add_realtime_variety_props(1) [OF var ne0] .
  with ne0 have "scores \<noteq> []" by auto
  then obtain best where best: "py_max_key scores = Inr best"
    using py_max_key_ok by blast
  from py_max_key_props [OF best] have "best \<in> set (map fst scores)" by force
  then obtain base where base: "dict_get scores best = Inr base"
    using dict_get_ok by blast
  show ?thesis
    using assms(1,2) calc var best base
    by (simp add: analyze_audio_realtime_def Let_def)
qed

text \<open>
  C1. Every estimate that the voice classifier returns has a confidence between 0 and the
  ceiling 0.92, a label of the fixed set of seven emotions, normalized scores, and its
  confidence is the largest normalized score plus the boost min(0.3, 2 volume + 1.5 rms),
  cut at 0.92; the classifier does return an estimate for every non-silent window when the
  history holds known labels. Every result of the fusion of well-formed estimates has a
  confidence in the unit interval and a label of the fixed set.
\<close>

theorem estimates_are_well_formed:
  "(analyze_audio_realtime rolloff_of pitch_of rnd audio_data now seq = (Some est, seq') \<longrightarrow>
      0 \<le> confidence est \<and> confidence est \<le> 0.92 \<and> confidence est \<le> 1 \<and>
      emotion est \<in> set EMOTIONS \<and>
      sum_list (map snd (all_predictions est)) = 1 \<and>
      (\<exists>volume. np_max (map abs audio_data) = Inr volume \<and>
         confidence est =
           min 0.92 (Max (snd ` set (all_predictions est)) +
                     min 0.3 (volume * 2 +
                              sqrt (np_mean (map (\<lambda>x. x ^ 2) audio_data)) * 1.5)))) \<and>
   (np_max (map abs audio_data) = Inr peak \<and> \<not> peak < 0.005 \<and> set seq \<subseteq> set EMOTIONS \<longrightarrow>
      (\<exists>e s. analyze_audio_realtime rolloff_of pitch_of rnd audio_data now seq = (Some e, s))) \<and>
   (valid_input face \<and> valid_input voice \<and> fuse_emotions face voice = Some r \<longrightarrow>
      0 \<le> confidence r \<and> confidence r \<le> 1 \<and> emotion r \<in> set EMOTIONS)"
proof (intro conjI impI)
  assume a: "analyze_audio_realtime rolloff_of pitch_of rnd audio_data now seq = (Some est, seq')"
  note p = voice_estimate_props [OF a]
  show "0 \<le> confidence est" using p(1) by simp
  show "confidence est \<le> 0.92" using p(2) .
  show "confidence est \<le> 1" using p(2) by simp
  show "emotion est \<in> set EMOTIONS" using p(3) .
  show "sum_list (map snd (all_predictions est)) = 1" using p(4) .
  show "\<exists>volume. np_max (map abs audio_data) = Inr volume \<and>
         confidence est =
           min 0.92 (Max (snd ` set (all_predictions est)) +
                     min 0.3 (volume * 2 +
                              sqrt (np_mean (map (\<lambda>x. x ^ 2) audio_data)) * 1.5))"
    using p(5) .
next
  assume "np_max (map abs audio_data) = Inr peak \<and> \<not> peak < 0.005 \<and> set seq \<subseteq> set EMOTIONS"
  then show "\<exists>e s. analyze_audio_realtime rolloff_of pitch_of rnd audio_data now seq = (Some e, s)"
    using analyze_returns_estimate by blast
next
  assume f: "valid_input face \<and> valid_input voice \<and> fuse_emotions face voice = Some r"
  then have "0 \<le> confidence r \<and> confidence r \<le> 1 \<and> emotion r \<in> set EMOTIONS"
    using fuse_valid by blast
  then show "0 \<le> confidence r" "confidence r \<le> 1" "emotion r \<in> set EMOTIONS" by simp_all
qed


theorem estimates_are_well_formed_witness:
  "analyze_audio_realtime (\<lambda>a. 0.5) (\<lambda>a. 0.5) (\<lambda>i. 0) [0.5, - 0.5] 0 [] =
     (Some \<lparr>emotion = ''angry'', confidence = 1597 / 2590,
            all_predictions =
              [(''neutral'', 15 / 259), (''happy'', 62 / 259), (''sad'', 13 / 259),
               (''angry'', 82 / 259), (''surprise'', 53 / 259), (''fear'', 10 / 259),
               (''disgust'', 24 / 259)],
            model = ''Real-Time-Audio''\<rparr>,
      [''angry'']) \<and>
   (1597 / 2590 :: real) \<le> 0.92 \<and> ''angry'' \<in> set EMOTIONS \<and>
   valid_input (Some \<lparr>emotion = ''happy'', confidence = 0.9\<rparr>) \<and>
   valid_input (Some \<lparr>emotion = ''happy'', confidence = 0.6\<rparr>) \<and>
   fuse_emotions (Some \<lparr>emotion = ''happy'', confidence = 0.9\<rparr>)
                 (Some \<lparr>emotion = ''happy'', confidence = 0.6\<rparr>) =
     Some \<lparr>emotion = ''happy'', confidence = 1, source = ''agreement''\<rparr> \<and>
   confidence \<lparr>emotion = ''happy'', confidence = 1, source = ''agreement''\<rparr> \<le> 1"
proof -
  let ?e = "\<lparr>emotion = ''angry'', confidence = 1597 / 2590,
            all_predictions =
              [(''neutral'', 15 / 259), (''happy'', 62 / 259), (''sad'', 13 / 259),
               (''angry'', 82 / 259), (''surprise'', 53 / 259), (''fear'', 10 / 259),
               (''disgust'', 24 / 259)],
            model = ''Real-Time-Audio''\<rparr>"
  let ?f = "\<lparr>emotion = ''happy'', confidence = 0.9\<rparr>"
  let ?v = "\<lparr>emotion = ''happy'', confidence = 0.6\<rparr>"
  let ?r = "\<lparr>emotion = ''happy'', confidence = 1, source = ''agreement''\<rparr>"
  have h1: "analyze_audio_realtime (\<lambda>a. 0.5) (\<lambda>a. 0.5) (\<lambda>i. 0) [0.5, - 0.5] 0 [] =
     (Some ?e, [''angry''])"
    by (rule loud_window_analysis)
  have h2: "valid_input (Some ?f)" "valid_input (Some ?v)"
    by (simp_all add: valid_input_def valid_estimate_def EMOTIONS_def)
  have h3: "fuse_emotions (Some ?f) (Some ?v) = Some ?r"
    by (simp add: fuse_defs Let_def)
  have a: "confidence ?e \<le> 0.92 \<and> emotion ?e \<in> set EMOTIONS"
    using estimates_are_well_formed
      [where est = ?e and face = "Some ?f" and voice = "Some ?v" and r = ?r,
       THEN conjunct1, rule_format, OF h1]
    by blast
  have b: "confidence ?r \<le> 1"
    using estimates_are_well_formed
      [where est = ?e and face = "Some ?f" and voice = "Some ?v" and r = ?r,
       THEN conjunct2, THEN conjunct2, rule_format, OF conjI [OF h2(1) conjI [OF h2(2) h3]]]
    by blast
  from a have "(1597 / 2590 :: real) \<le> 0.92" "''angry'' \<in> set EMOTIONS" by simp_all
  with h1 h2 h3 b show ?thesis by blast
qed

end
